theory Spec2Isabelle
  imports Complex_Main
begin

section \<open>Python values and the built-ins the engine relies on\<close>

text \<open>
  Text is modelled as ASCII: a \<open>string\<close> is the list of the code points of a Python
  \<open>str\<close>. Case mapping, the whitespace class and the word class are the ASCII parts of
  the Python ones; code points above 127 are letters of no case, no whitespace and no
  word characters here.
\<close>

definition lowers :: string where
  "lowers = ''abcdefghijklmnopqrstuvwxyz''"

definition uppers :: string where
  "uppers = ''ABCDEFGHIJKLMNOPQRSTUVWXYZ''"

definition digits :: string where
  "digits = ''0123456789''"

definition upper_char :: "char \<Rightarrow> char" where
  "upper_char c = (case map_of (zip lowers uppers) c of Some u \<Rightarrow> u | None \<Rightarrow> c)"

definition lower_char :: "char \<Rightarrow> char" where
  "lower_char c = (case map_of (zip uppers lowers) c of Some l \<Rightarrow> l | None \<Rightarrow> c)"

definition upper :: "string \<Rightarrow> string" where
  "upper s = map upper_char s"

definition lower :: "string \<Rightarrow> string" where
  "lower s = map lower_char s"

text \<open>\<open>str.isspace\<close> on ASCII: tab, line feed, vertical tab, form feed, carriage return,
  the four separators 0x1C..0x1F and the blank.\<close>

definition is_space :: "char \<Rightarrow> bool" where
  "is_space c = (c \<in> set [CHR '' '', CHR 0x09, CHR 0x0A, CHR 0x0B, CHR 0x0C, CHR 0x0D,
                            CHR 0x1C, CHR 0x1D, CHR 0x1E, CHR 0x1F])"

definition is_digit :: "char \<Rightarrow> bool" where
  "is_digit c = (c \<in> set digits)"

definition is_word :: "char \<Rightarrow> bool" where
  "is_word c = (c \<in> set (lowers @ uppers @ digits @ ''_''))"

definition strip :: "string \<Rightarrow> string" where
  "strip s = rev (dropWhile is_space (rev (dropWhile is_space s)))"

definition startswith :: "string \<Rightarrow> string \<Rightarrow> bool" where
  "startswith s p = (take (length p) s = p)"

definition endswith :: "string \<Rightarrow> string \<Rightarrow> bool" where
  "endswith s p = (length p \<le> length s \<and> drop (length s - length p) s = p)"

text \<open>\<open>find_sub p s\<close> is the text before and after the first occurrence of \<open>p\<close> in \<open>s\<close>:
  \<open>p in s\<close> is \<open>find_sub p s \<noteq> None\<close>, and \<open>s.split(p, 1)\<close> is the pair found.\<close>

fun find_sub :: "string \<Rightarrow> string \<Rightarrow> (string \<times> string) option" where
  "find_sub p [] = (if p = [] then Some ([], []) else None)"
| "find_sub p (c # cs) =
     (if startswith (c # cs) p then Some ([], drop (length p) (c # cs))
      else (case find_sub p cs of None \<Rightarrow> None | Some (l, r) \<Rightarrow> Some (c # l, r)))"

text \<open>\<open>s.split(sep)\<close> for a one-character separator: every field, empty ones included.\<close>

fun split_on :: "char \<Rightarrow> string \<Rightarrow> string list" where
  "split_on sep [] = [[]]"
| "split_on sep (c # cs) =
     (case split_on sep cs of
        [] \<Rightarrow> [[c]]
      | f # fs \<Rightarrow> if c = sep then [] # f # fs else (c # f) # fs)"

text \<open>\<open>s.split()\<close>: the maximal runs of non-whitespace characters.\<close>

fun split_ws_acc :: "string \<Rightarrow> string \<Rightarrow> string list" where
  "split_ws_acc cur [] = (if cur = [] then [] else [rev cur])"
| "split_ws_acc cur (c # cs) =
     (if is_space c then (if cur = [] then split_ws_acc [] cs else rev cur # split_ws_acc [] cs)
      else split_ws_acc (c # cur) cs)"

definition split_ws :: "string \<Rightarrow> string list" where
  "split_ws s = split_ws_acc [] s"

subsection \<open>Values\<close>

text \<open>
  A Python \<open>float\<close> is modelled by its mathematical value: a finite float is an exact
  rational, so the rounding of a decimal literal to binary64 and the overflow of a huge
  literal or integer to infinity or to \<open>OverflowError\<close> are not part of the model; the two
  infinities and NaN are.
\<close>

datatype pyfloat = Fin rat | PInf | NInf | NaN

datatype pyval = PNone | PBool bool | PInt int | PFloat pyfloat | PStr string

text \<open>The message of a \<open>ValueError\<close> the engine raises itself, kept structured instead of
  formatted; \<open>Runtime_message\<close> stands for the text of an error raised by a built-in.\<close>

datatype message =
    Invalid_syntax
  | Invalid_type string
  | Invalid_assignment string
  | Expected_values int nat
  | Cannot_cast pyval string
  | Table_exists
  | Table_not_exists
  | Column_not_found string
  | Runtime_message

datatype exn = ValueError message | TypeError | OverflowError | KeyError string

subsection \<open>\<open>int(x)\<close>, \<open>float(x)\<close>, \<open>str(x)\<close>\<close>

definition digit_val :: "char \<Rightarrow> nat" where
  "digit_val c = length (takeWhile (\<lambda>d. d \<noteq> c) digits)"

definition digits_val :: "string \<Rightarrow> nat" where
  "digits_val s = foldl (\<lambda>a c. 10 * a + digit_val c) 0 (filter is_digit s)"

text \<open>A digit part: digits, with single underscores allowed between two digits.\<close>

fun digitpart :: "string \<Rightarrow> bool" where
  "digitpart [] = False"
| "digitpart [c] = is_digit c"
| "digitpart (c # d # cs) =
     (is_digit c \<and> (if d = CHR ''_'' then digitpart cs else digitpart (d # cs)))"

definition unsigned_int_of_str :: "string \<Rightarrow> int option" where
  "unsigned_int_of_str s = (if digitpart s then Some (int (digits_val s)) else None)"

text \<open>An optional sign in front of an unsigned parser.\<close>

definition signed :: "(string \<Rightarrow> 'a option) \<Rightarrow> ('a \<Rightarrow> 'a) \<Rightarrow> string \<Rightarrow> 'a option" where
  "signed p neg s =
     (case s of
        [] \<Rightarrow> p []
      | c # cs \<Rightarrow>
          if c = CHR ''-'' then map_option neg (p cs)
          else if c = CHR ''+'' then p cs
          else p s)"

text \<open>\<open>int(s)\<close> for a string, base ten: surrounding whitespace, a sign, a digit part.\<close>

definition int_of_str :: "string \<Rightarrow> int option" where
  "int_of_str s = signed unsigned_int_of_str uminus (strip s)"

definition trunc :: "rat \<Rightarrow> int" where
  "trunc q = (if 0 \<le> q then \<lfloor>q\<rfloor> else \<lceil>q\<rceil>)"

fun py_int :: "pyval \<Rightarrow> exn + int" where
  "py_int (PBool b) = Inr (if b then 1 else 0)"
| "py_int (PInt i) = Inr i"
| "py_int (PFloat (Fin q)) = Inr (trunc q)"
| "py_int (PFloat NaN) = Inl (ValueError Runtime_message)"
| "py_int (PFloat PInf) = Inl OverflowError"
| "py_int (PFloat NInf) = Inl OverflowError"
| "py_int (PStr s) =
     (case int_of_str s of None \<Rightarrow> Inl (ValueError Runtime_message) | Some i \<Rightarrow> Inr i)"
| "py_int PNone = Inl TypeError"

text \<open>The mantissa of a float literal: \<open>[digitpart] "." digitpart | digitpart ["."]\<close>.\<close>

definition mantissa :: "string \<Rightarrow> rat option" where
  "mantissa s =
     (case find_sub ''.'' s of
        None \<Rightarrow> if digitpart s then Some (of_nat (digits_val s)) else None
      | Some (ip, fp) \<Rightarrow>
          if (ip = [] \<or> digitpart ip) \<and> (fp = [] \<or> digitpart fp) \<and> \<not> (ip = [] \<and> fp = [])
          then Some (of_nat (digits_val ip)
                     + of_nat (digits_val fp) / 10 ^ length (filter is_digit fp))
          else None)"

definition pow10 :: "int \<Rightarrow> rat" where
  "pow10 e = (if 0 \<le> e then 10 ^ nat e else 1 / 10 ^ nat (- e))"

definition floatnumber :: "string \<Rightarrow> rat option" where
  "floatnumber s =
     (case find_sub ''e'' (lower s) of
        None \<Rightarrow> mantissa s
      | Some (m, e) \<Rightarrow>
          (case (mantissa m, signed unsigned_int_of_str uminus e) of
             (Some q, Some k) \<Rightarrow> Some (q * pow10 k)
           | _ \<Rightarrow> None))"

definition absfloatvalue :: "string \<Rightarrow> pyfloat option" where
  "absfloatvalue s =
     (if lower s = ''inf'' \<or> lower s = ''infinity'' then Some PInf
      else if lower s = ''nan'' then Some NaN
      else map_option Fin (floatnumber s))"

fun float_neg :: "pyfloat \<Rightarrow> pyfloat" where
  "float_neg (Fin q) = Fin (- q)"
| "float_neg PInf = NInf"
| "float_neg NInf = PInf"
| "float_neg NaN = NaN"

text \<open>\<open>float(s)\<close> for a string.\<close>

definition float_of_str :: "string \<Rightarrow> pyfloat option" where
  "float_of_str s = signed absfloatvalue float_neg (strip s)"

fun py_float :: "pyval \<Rightarrow> exn + pyfloat" where
  "py_float (PBool b) = Inr (Fin (if b then 1 else 0))"
| "py_float (PInt i) = Inr (Fin (of_int i))"
| "py_float (PFloat f) = Inr f"
| "py_float (PStr s) =
     (case float_of_str s of None \<Rightarrow> Inl (ValueError Runtime_message) | Some f \<Rightarrow> Inr f)"
| "py_float PNone = Inl TypeError"

function str_of_nat :: "nat \<Rightarrow> string" where
  "str_of_nat n = (if n < 10 then [digits ! n] else str_of_nat (n div 10) @ [digits ! (n mod 10)])"
  by pat_completeness auto
termination
  by (relation "measure id") auto

declare str_of_nat.simps [simp del]

definition str_of_int :: "int \<Rightarrow> string" where
  "str_of_int i = (if i < 0 then CHR ''-'' # str_of_nat (nat (- i)) else str_of_nat (nat i))"

text \<open>\<open>str(x)\<close>. The shortest-round-trip text of a float is a property of binary64 and is
  taken as the parameter \<open>frepr\<close>.\<close>

fun py_str :: "(pyfloat \<Rightarrow> string) \<Rightarrow> pyval \<Rightarrow> string" where
  "py_str frepr PNone = ''None''"
| "py_str frepr (PBool b) = (if b then ''True'' else ''False'')"
| "py_str frepr (PInt i) = str_of_int i"
| "py_str frepr (PFloat f) = frepr f"
| "py_str frepr (PStr s) = s"

subsection \<open>Comparison\<close>

text \<open>The numeric value of a \<open>bool\<close>, an \<open>int\<close> or a \<open>float\<close>; Python compares these
  three with each other by value.\<close>

fun num :: "pyval \<Rightarrow> pyfloat option" where
  "num (PBool b) = Some (Fin (if b then 1 else 0))"
| "num (PInt i) = Some (Fin (of_int i))"
| "num (PFloat f) = Some f"
| "num (PStr s) = None"
| "num PNone = None"

fun float_eq :: "pyfloat \<Rightarrow> pyfloat \<Rightarrow> bool" where
  "float_eq NaN y = False"
| "float_eq x NaN = False"
| "float_eq x y = (x = y)"

fun float_lt :: "pyfloat \<Rightarrow> pyfloat \<Rightarrow> bool" where
  "float_lt NaN y = False"
| "float_lt x NaN = False"
| "float_lt (Fin p) (Fin q) = (p < q)"
| "float_lt NInf y = (y \<noteq> NInf)"
| "float_lt x PInf = (x \<noteq> PInf)"
| "float_lt x y = False"

fun str_lt :: "string \<Rightarrow> string \<Rightarrow> bool" where
  "str_lt s [] = False"
| "str_lt [] (b # t) = True"
| "str_lt (a # s) (b # t) =
     ((of_char a :: nat) < of_char b \<or> (a = b \<and> str_lt s t))"

text \<open>\<open>a == b\<close> never raises: values of unrelated types are unequal.\<close>

fun py_eq :: "pyval \<Rightarrow> pyval \<Rightarrow> bool" where
  "py_eq (PStr s) (PStr t) = (s = t)"
| "py_eq PNone PNone = True"
| "py_eq a b =
     (case (num a, num b) of (Some x, Some y) \<Rightarrow> float_eq x y | _ \<Rightarrow> False)"

text \<open>\<open>a < b\<close> and \<open>a <= b\<close> raise \<open>TypeError\<close> unless both sides are numbers or both are
  strings; \<open>None\<close> is ordered with nothing, itself included.\<close>

fun py_lt :: "pyval \<Rightarrow> pyval \<Rightarrow> exn + bool" where
  "py_lt (PStr s) (PStr t) = Inr (str_lt s t)"
| "py_lt a b =
     (case (num a, num b) of (Some x, Some y) \<Rightarrow> Inr (float_lt x y) | _ \<Rightarrow> Inl TypeError)"

fun py_le :: "pyval \<Rightarrow> pyval \<Rightarrow> exn + bool" where
  "py_le (PStr s) (PStr t) = Inr (str_lt s t \<or> s = t)"
| "py_le a b =
     (case (num a, num b) of
        (Some x, Some y) \<Rightarrow> Inr (float_lt x y \<or> float_eq x y)
      | _ \<Rightarrow> Inl TypeError)"

definition py_gt :: "pyval \<Rightarrow> pyval \<Rightarrow> exn + bool" where
  "py_gt a b = py_lt b a"

definition py_ge :: "pyval \<Rightarrow> pyval \<Rightarrow> exn + bool" where
  "py_ge a b = py_le b a"

text \<open>\<open>max(xs, default=0)\<close>: the running maximum is replaced by an item that compares
  greater, so the first of equal items is kept.\<close>

fun max_from :: "pyval \<Rightarrow> pyval list \<Rightarrow> exn + pyval" where
  "max_from m [] = Inr m"
| "max_from m (x # xs) =
     (case py_gt x m of
        Inl e \<Rightarrow> Inl e
      | Inr g \<Rightarrow> max_from (if g then x else m) xs)"

definition py_max_default0 :: "pyval list \<Rightarrow> exn + pyval" where
  "py_max_default0 xs = (case xs of [] \<Rightarrow> Inr (PInt 0) | x # rest \<Rightarrow> max_from x rest)"

text \<open>\<open>x + 1\<close>.\<close>

fun py_add1 :: "pyval \<Rightarrow> exn + pyval" where
  "py_add1 (PInt i) = Inr (PInt (i + 1))"
| "py_add1 (PBool b) = Inr (PInt ((if b then 1 else 0) + 1))"
| "py_add1 (PFloat (Fin q)) = Inr (PFloat (Fin (q + 1)))"
| "py_add1 (PFloat f) = Inr (PFloat f)"
| "py_add1 (PStr s) = Inl TypeError"
| "py_add1 PNone = Inl TypeError"

subsection \<open>Dictionaries\<close>

text \<open>A \<open>dict\<close> keeps its keys in insertion order: an association list whose keys are
  distinct. Assigning to a present key replaces the value in place, to an absent one
  appends.\<close>

type_synonym ('k, 'v) dict = "('k \<times> 'v) list"

definition dict_get :: "('k, 'v) dict \<Rightarrow> 'k \<Rightarrow> 'v option" where
  "dict_get d k = map_of d k"

definition dict_has :: "('k, 'v) dict \<Rightarrow> 'k \<Rightarrow> bool" where
  "dict_has d k = (map_of d k \<noteq> None)"

fun dict_set :: "('k, 'v) dict \<Rightarrow> 'k \<Rightarrow> 'v \<Rightarrow> ('k, 'v) dict" where
  "dict_set [] k v = [(k, v)]"
| "dict_set ((k', v') # d) k v =
     (if k' = k then (k, v) # d else (k', v') # dict_set d k v)"

definition dict_update :: "('k, 'v) dict \<Rightarrow> ('k, 'v) dict \<Rightarrow> ('k, 'v) dict" where
  "dict_update d u = foldl (\<lambda>acc (k, v). dict_set acc k v) d u"

definition dict_del :: "('k, 'v) dict \<Rightarrow> 'k \<Rightarrow> ('k, 'v) dict" where
  "dict_del d k = filter (\<lambda>(k', v). k' \<noteq> k) d"

type_synonym schema = "(string, string) dict"

type_synonym row = "(string, pyval) dict"

section \<open>constants.py\<close>

definition ID_COLUMN :: string where
  "ID_COLUMN = ''id''"

definition ID_TYPE :: string where
  "ID_TYPE = ''int''"

definition DEFAULT_COLUMNS :: schema where
  "DEFAULT_COLUMNS = [(ID_COLUMN, ID_TYPE)]"

definition SUPPORTED_TYPES :: "string list" where
  "SUPPORTED_TYPES = [''int'', ''str'', ''float'', ''bool'']"

section \<open>utils.py: DataValidator\<close>

text \<open>This is the validator \<open>core.py\<close> imports. \<open>except (ValueError, TypeError)\<close> turns the
  two into the engine's own \<open>ValueError\<close>; any other exception passes through.\<close>

definition recast :: "pyval \<Rightarrow> string \<Rightarrow> exn \<Rightarrow> exn" where
  "recast v ty e =
     (case e of
        ValueError m \<Rightarrow> ValueError (Cannot_cast v ty)
      | TypeError \<Rightarrow> ValueError (Cannot_cast v ty)
      | _ \<Rightarrow> e)"

fun cast_bool :: "pyval \<Rightarrow> exn + pyval" where
  "cast_bool (PBool b) = Inr (PBool b)"
| "cast_bool (PStr s) =
     (if lower s \<in> set [''true'', ''1'', ''yes''] then Inr (PBool True)
      else if lower s \<in> set [''false'', ''0'', ''no''] then Inr (PBool False)
      else Inl (ValueError (Cannot_cast (PStr s) ''bool'')))"
| "cast_bool v = Inl (ValueError (Cannot_cast v ''bool''))"

definition cast_value :: "(pyfloat \<Rightarrow> string) \<Rightarrow> pyval \<Rightarrow> string \<Rightarrow> exn + pyval" where
  "cast_value frepr v expected_type =
     (if expected_type = ''int'' then
        (case py_int v of Inl e \<Rightarrow> Inl (recast v ''int'' e) | Inr i \<Rightarrow> Inr (PInt i))
      else if expected_type = ''float'' then
        (case py_float v of Inl e \<Rightarrow> Inl (recast v ''float'' e) | Inr f \<Rightarrow> Inr (PFloat f))
      else if expected_type = ''bool'' then cast_bool v
      else Inr (PStr (py_str frepr v)))"

text \<open>The loop of \<open>validate_row_data\<close> over \<open>zip(col_names, row_data)\<close>.\<close>

fun cast_zipped ::
  "(pyfloat \<Rightarrow> string) \<Rightarrow> schema \<Rightarrow> (string \<times> pyval) list \<Rightarrow> row \<Rightarrow> exn + row" where
  "cast_zipped frepr columns [] validated_row = Inr validated_row"
| "cast_zipped frepr columns ((col_name, v) # rest) validated_row =
     (case dict_get columns col_name of
        None \<Rightarrow> Inl (KeyError col_name)
      | Some expected_type \<Rightarrow>
          (case cast_value frepr v expected_type of
             Inl e \<Rightarrow> Inl e
           | Inr c \<Rightarrow> cast_zipped frepr columns rest (dict_set validated_row col_name c)))"

definition validate_row_data ::
  "(pyfloat \<Rightarrow> string) \<Rightarrow> schema \<Rightarrow> pyval list \<Rightarrow> exn + row" where
  "validate_row_data frepr columns row_data =
     (if int (length row_data) \<noteq> int (length columns) - 1
      then Inl (ValueError (Expected_values (int (length columns) - 1) (length row_data)))
      else
        let col_names = filter (\<lambda>name. name \<noteq> ''id'') (map fst columns)
        in cast_zipped frepr columns (zip col_names row_data) [])"

section \<open>parser.py: its own copy of DataValidator.\_cast\_value\<close>

fun parser_cast_bool :: "pyval \<Rightarrow> exn + pyval" where
  "parser_cast_bool (PBool b) = Inr (PBool b)"
| "parser_cast_bool (PStr s) =
     (if lower s \<in> set [''true'', ''1'', ''yes'', ''t''] then Inr (PBool True)
      else if lower s \<in> set [''false'', ''0'', ''no'', ''f''] then Inr (PBool False)
      else Inl (ValueError (Cannot_cast (PStr s) ''bool'')))"
| "parser_cast_bool (PInt i) = Inr (PBool (i \<noteq> 0))"
| "parser_cast_bool v = Inl (ValueError (Cannot_cast v ''bool''))"

definition parser_cast_value :: "(pyfloat \<Rightarrow> string) \<Rightarrow> pyval \<Rightarrow> string \<Rightarrow> exn + pyval" where
  "parser_cast_value frepr v expected_type =
     (if expected_type = ''int'' then
        (case py_int v of Inl e \<Rightarrow> Inl (recast v ''int'' e) | Inr i \<Rightarrow> Inr (PInt i))
      else if expected_type = ''float'' then
        (case py_float v of Inl e \<Rightarrow> Inl (recast v ''float'' e) | Inr f \<Rightarrow> Inr (PFloat f))
      else if expected_type = ''bool'' then parser_cast_bool v
      else Inr (PStr (py_str frepr v)))"

section \<open>Regular expressions\<close>

text \<open>
  The fragment of Python's \<open>re\<close> the parsers use, with the backtracking order of the
  library: \<open>re_match r (s, g)\<close> lists every way \<open>r\<close> matches a prefix of \<open>s\<close>, in the order
  the matcher tries them, as the rest of the input and the groups captured so far;
  \<open>re.match\<close> takes the first. Literal text is compared ignoring case
  (\<open>re.IGNORECASE\<close>).
\<close>

datatype cls = Dot | Word | Space

fun in_cls :: "cls \<Rightarrow> char \<Rightarrow> bool" where
  "in_cls Dot c = (c \<noteq> CHR 0x0A)"
| "in_cls Word c = is_word c"
| "in_cls Space c = is_space c"

datatype re =
    Lit string
  | Plus cls
  | Star cls
  | Lazy_plus cls
  | Group nat re
  | Opt re
  | Seq re re
  | Dollar

type_synonym groups = "(nat, string) dict"

definition run :: "cls \<Rightarrow> string \<Rightarrow> nat" where
  "run c s = length (takeWhile (in_cls c) s)"

fun re_match :: "re \<Rightarrow> string \<times> groups \<Rightarrow> (string \<times> groups) list" where
  "re_match (Lit p) (s, g) =
     (if lower (take (length p) s) = lower p then [(drop (length p) s, g)] else [])"
| "re_match (Plus c) (s, g) = map (\<lambda>k. (drop k s, g)) (rev [1 ..< Suc (run c s)])"
| "re_match (Star c) (s, g) = map (\<lambda>k. (drop k s, g)) (rev [0 ..< Suc (run c s)])"
| "re_match (Lazy_plus c) (s, g) = map (\<lambda>k. (drop k s, g)) [1 ..< Suc (run c s)]"
| "re_match (Group i r) (s, g) =
     map (\<lambda>(s', g'). (s', dict_set g' i (take (length s - length s') s))) (re_match r (s, g))"
| "re_match (Opt r) (s, g) = re_match r (s, g) @ [(s, g)]"
| "re_match (Seq r1 r2) (s, g) = concat (map (re_match r2) (re_match r1 (s, g)))"
| "re_match Dollar (s, g) = (if s = [] \<or> s = [CHR 0x0A] then [(s, g)] else [])"

fun seq :: "re list \<Rightarrow> re" where
  "seq [] = Lit []"
| "seq [r] = r"
| "seq (r # rs) = Seq r (seq rs)"

definition match :: "re \<Rightarrow> string \<Rightarrow> groups option" where
  "match r s = (case re_match r (s, []) of [] \<Rightarrow> None | (rest, g) # alternatives \<Rightarrow> Some g)"

section \<open>parser.py: CommandParser\<close>

subsection \<open>Literals\<close>

record splitter =
  vals :: "string list"
  current :: string
  in_quotes :: bool
  quote_char :: "char option"
  escape_char :: bool

definition split_step :: "splitter \<Rightarrow> char \<Rightarrow> splitter" where
  "split_step st c =
     (if escape_char st then st\<lparr>current := current st @ [c], escape_char := False\<rparr>
      else if c = CHR 0x5C then st\<lparr>escape_char := True\<rparr>
      else if (c = CHR 0x22 \<or> c = CHR 0x27) \<and> \<not> in_quotes st
        then st\<lparr>in_quotes := True, quote_char := Some c, current := current st @ [c]\<rparr>
      else if Some c = quote_char st \<and> in_quotes st
        then st\<lparr>in_quotes := False, quote_char := None, current := current st @ [c]\<rparr>
      else if c = CHR '','' \<and> \<not> in_quotes st
        then st\<lparr>vals := vals st @ [strip (current st)], current := []\<rparr>
      else st\<lparr>current := current st @ [c]\<rparr>)"

definition split_values :: "string \<Rightarrow> string list" where
  "split_values values_str =
     (let st = foldl split_step
                 \<lparr>vals = [], current = [], in_quotes = False, quote_char = None,
                  escape_char = False\<rparr> values_str
      in if strip (current st) \<noteq> [] then vals st @ [strip (current st)] else vals st)"

definition parse_value :: "string \<Rightarrow> pyval" where
  "parse_value v =
     (if (startswith v [CHR 0x22] \<and> endswith v [CHR 0x22])
         \<or> (startswith v [CHR 0x27] \<and> endswith v [CHR 0x27])
      then PStr (butlast (tl v))
      else if lower v = ''true'' then PBool True
      else if lower v = ''false'' then PBool False
      else if lower v = ''null'' \<or> lower v = ''none'' then PNone
      else (case int_of_str v of
              Some i \<Rightarrow> PInt i
            | None \<Rightarrow> (case float_of_str v of Some f \<Rightarrow> PFloat f | None \<Rightarrow> PStr v)))"

subsection \<open>Conditions\<close>

definition operators :: "string list" where
  "operators = [''>='', ''<='', ''!='', ''='', ''>'', ''<'']"

text \<open>The \<open>if\<close>/\<open>elif\<close> chain on the operator; \<open>None\<close> when no branch is taken.\<close>

definition compare :: "string \<Rightarrow> pyval \<Rightarrow> pyval \<Rightarrow> (exn + bool) option" where
  "compare op left_val right_val =
     (if op = ''='' then Some (Inr (py_eq left_val right_val))
      else if op = ''!='' then Some (Inr (\<not> py_eq left_val right_val))
      else if op = ''>'' then Some (py_gt left_val right_val)
      else if op = ''<'' then Some (py_lt left_val right_val)
      else if op = ''>='' then Some (py_ge left_val right_val)
      else if op = ''<='' then Some (py_le left_val right_val)
      else None)"

definition row_get :: "row \<Rightarrow> string \<Rightarrow> pyval" where
  "row_get r k = (case dict_get r k of None \<Rightarrow> PNone | Some v \<Rightarrow> v)"

fun evaluate_ops :: "string list \<Rightarrow> row \<Rightarrow> string \<Rightarrow> exn + bool" where
  "evaluate_ops [] r condition = Inr True"
| "evaluate_ops (op # ops) r condition =
     (case find_sub op condition of
        None \<Rightarrow> evaluate_ops ops r condition
      | Some (left, right) \<Rightarrow>
          (case compare op (row_get r (strip left)) (parse_value (strip right)) of
             None \<Rightarrow> evaluate_ops ops r condition
           | Some res \<Rightarrow> res))"

definition evaluate_condition :: "row \<Rightarrow> string \<Rightarrow> exn + bool" where
  "evaluate_condition r condition = evaluate_ops operators r condition"

subsection \<open>Statements\<close>

definition group :: "groups \<Rightarrow> nat \<Rightarrow> string" where
  "group g i = (case dict_get g i of None \<Rightarrow> [] | Some t \<Rightarrow> t)"

definition create_pattern :: re where
  "create_pattern =
     seq [Lit ''CREATE'', Plus Space, Lit ''TABLE'', Plus Space, Group 1 (Plus Word),
          Star Space, Lit ''('', Group 2 (Plus Dot), Lit '')'']"

fun parse_columns :: "string list \<Rightarrow> schema \<Rightarrow> exn + schema" where
  "parse_columns [] columns = Inr columns"
| "parse_columns (col_def # rest) columns =
     (if strip col_def = [] then parse_columns rest columns
      else
        (case map strip (filter (\<lambda>part. strip part \<noteq> []) (split_ws (strip col_def))) of
           col_name # ty # extra \<Rightarrow>
             if lower ty \<in> set SUPPORTED_TYPES
             then parse_columns rest (dict_set columns col_name (lower ty))
             else Inl (ValueError (Invalid_type (lower ty)))
         | _ \<Rightarrow> Inl (ValueError Invalid_syntax)))"

definition parse_create_table :: "string \<Rightarrow> exn + string \<times> schema" where
  "parse_create_table command =
     (case match create_pattern command of
        None \<Rightarrow> Inl (ValueError Invalid_syntax)
      | Some g \<Rightarrow>
          (case parse_columns (split_on CHR '','' (group g 2)) [] of
             Inl e \<Rightarrow> Inl e
           | Inr columns \<Rightarrow> Inr (group g 1, columns)))"

definition insert_pattern :: re where
  "insert_pattern =
     seq [Lit ''INSERT INTO '', Group 1 (Plus Word), Lit '' VALUES ('', Group 2 (Plus Dot),
          Lit '')'']"

definition parse_insert :: "string \<Rightarrow> exn + string \<times> pyval list" where
  "parse_insert command =
     (case match insert_pattern command of
        None \<Rightarrow> Inl (ValueError Invalid_syntax)
      | Some g \<Rightarrow>
          Inr (group g 1, map (\<lambda>v. parse_value (strip v)) (split_values (group g 2))))"

definition where_pattern :: re where
  "where_pattern =
     seq [Lit ''SELECT '', Group 1 (Plus Dot), Lit '' FROM '', Group 2 (Plus Word),
          Lit '' WHERE '', Group 3 (Plus Dot)]"

definition simple_pattern :: re where
  "simple_pattern =
     seq [Lit ''SELECT '', Group 1 (Plus Dot), Lit '' FROM '', Group 2 (Plus Word)]"

definition select_columns :: "string \<Rightarrow> string list" where
  "select_columns columns_str =
     (if strip columns_str = ''*'' then [''*'']
      else map strip (split_on CHR '','' columns_str))"

definition parse_select :: "string \<Rightarrow> exn + string \<times> string list \<times> string option" where
  "parse_select command =
     (case match where_pattern command of
        Some g \<Rightarrow> Inr (group g 2, select_columns (group g 1), Some (group g 3))
      | None \<Rightarrow>
          (case match simple_pattern command of
             None \<Rightarrow> Inl (ValueError Invalid_syntax)
           | Some g \<Rightarrow> Inr (group g 2, select_columns (group g 1), None)))"

definition update_pattern :: re where
  "update_pattern =
     seq [Lit ''UPDATE'', Plus Space, Group 1 (Plus Word), Plus Space, Lit ''SET'', Plus Space,
          Group 2 (Lazy_plus Dot),
          Opt (seq [Plus Space, Lit ''WHERE'', Plus Space, Group 3 (Plus Dot)]), Dollar]"

fun parse_assignments :: "string list \<Rightarrow> row \<Rightarrow> exn + row" where
  "parse_assignments [] updates = Inr updates"
| "parse_assignments (assignment # rest) updates =
     (case find_sub ''='' assignment of
        None \<Rightarrow> Inl (ValueError (Invalid_assignment assignment))
      | Some (col_name, value_str) \<Rightarrow>
          parse_assignments rest
            (dict_set updates (strip col_name) (parse_value (strip value_str))))"

text \<open>\<open>x if x else None\<close> on a group: a group that took no part and an empty one both
  give \<open>None\<close>.\<close>

definition truthy :: "string option \<Rightarrow> string option" where
  "truthy x = (case x of None \<Rightarrow> None | Some t \<Rightarrow> if t = [] then None else Some t)"

definition parse_update :: "string \<Rightarrow> exn + string \<times> row \<times> string option" where
  "parse_update command =
     (case match update_pattern command of
        None \<Rightarrow> Inl (ValueError Invalid_syntax)
      | Some g \<Rightarrow>
          (case parse_assignments (map strip (split_on CHR '','' (strip (group g 2)))) [] of
             Inl e \<Rightarrow> Inl e
           | Inr updates \<Rightarrow>
               Inr (group g 1, updates, map_option strip (truthy (dict_get g 3)))))"

definition delete_pattern :: re where
  "delete_pattern =
     seq [Lit ''DELETE FROM '', Group 1 (Plus Word), Opt (seq [Lit '' WHERE '', Group 2 (Plus Dot)])]"

definition parse_delete :: "string \<Rightarrow> exn + string \<times> string option" where
  "parse_delete command =
     (case match delete_pattern command of
        None \<Rightarrow> Inl (ValueError Invalid_syntax)
      | Some g \<Rightarrow> Inr (group g 1, truthy (dict_get g 2)))"

definition drop_pattern :: re where
  "drop_pattern = seq [Lit ''DROP TABLE '', Group 1 (Plus Word)]"

definition parse_drop_table :: "string \<Rightarrow> exn + string" where
  "parse_drop_table command =
     (case match drop_pattern command of
        None \<Rightarrow> Inl (ValueError Invalid_syntax)
      | Some g \<Rightarrow> Inr (group g 1))"

section \<open>Storage and replies\<close>

text \<open>
  \<open>metadata\<close> is the dictionary that \<open>FileManager.read_table_metadata\<close> returns.
  \<open>cache_results\<close> memoises that function on a key that never varies, so within a session
  every call returns the one dictionary object loaded at first use, and \<open>create_table\<close> and
  \<open>drop_table\<close> change that object in place before they hand it to
  \<open>write_table_metadata\<close>. \<open>files\<close> maps a table name to the content of its data file,
  \<open>None\<close> when the file is absent; a row sequence read back from JSON is the one
  written. Failures of the file system are not modelled.
\<close>

record db =
  metadata :: "(string, schema) dict"
  files :: "string \<Rightarrow> row list option"

definition read_table_metadata :: "db \<Rightarrow> (string, schema) dict" where
  "read_table_metadata s = metadata s"

definition table_exists :: "db \<Rightarrow> string \<Rightarrow> bool" where
  "table_exists s table_name = dict_has (read_table_metadata s) table_name"

definition read_table_data :: "db \<Rightarrow> string \<Rightarrow> row list" where
  "read_table_data s table_name = (case files s table_name of None \<Rightarrow> [] | Some rows \<Rightarrow> rows)"

definition write_table_data :: "db \<Rightarrow> string \<Rightarrow> row list \<Rightarrow> db" where
  "write_table_data s table_name data = s\<lparr>files := (files s)(table_name \<mapsto> data)\<rparr>"

definition delete_table_file :: "db \<Rightarrow> string \<Rightarrow> db" where
  "delete_table_file s table_name = s\<lparr>files := (files s)(table_name := None)\<rparr>"

text \<open>The strings the engine returns, kept structured: \<open>Error m\<close> is the text
  \<open>"Error: m"\<close>, \<open>Unexpected e\<close> the text \<open>"Unexpected error: e"\<close>.\<close>

datatype reply =
    Table_created
  | Table_dropped
  | Row_inserted
  | Rows_updated nat
  | Rows_deleted nat
  | Error message
  | Unexpected exn
  | Action_cancelled
  | No_tables_exist
  | Unknown_command

datatype result = Text reply | Rows "row list" | Tables "string list"

section \<open>decorators.py\<close>

text \<open>\<open>handle_db_errors\<close>: what the wrapper returns for an exception of the call.\<close>

fun handle_db_errors :: "exn \<Rightarrow> reply" where
  "handle_db_errors (KeyError k) = Error (Column_not_found k)"
| "handle_db_errors (ValueError m) = Error m"
| "handle_db_errors e = Unexpected e"

text \<open>\<open>confirm_action\<close> reads a line from the terminal; \<open>answer\<close> is that line.\<close>

definition confirmed :: "string \<Rightarrow> bool" where
  "confirmed answer = (lower answer = ''y'')"

section \<open>core.py: DatabaseEngine\<close>

definition create_table :: "db \<Rightarrow> string \<Rightarrow> schema \<Rightarrow> result \<times> db" where
  "create_table s table_name columns =
     (if table_exists s table_name then (Text (Error Table_exists), s)
      else
        let all_columns = dict_update DEFAULT_COLUMNS columns;
            s1 = s\<lparr>metadata := dict_set (read_table_metadata s) table_name all_columns\<rparr>;
            s2 = write_table_data s1 table_name []
        in (Text Table_created, s2))"

definition drop_table :: "string \<Rightarrow> db \<Rightarrow> string \<Rightarrow> result \<times> db" where
  "drop_table answer s table_name =
     (if \<not> confirmed answer then (Text Action_cancelled, s)
      else if \<not> table_exists s table_name then (Text (Error Table_not_exists), s)
      else
        let s1 = s\<lparr>metadata := dict_del (read_table_metadata s) table_name\<rparr>;
            s2 = delete_table_file s1 table_name
        in (Text Table_dropped, s2))"

definition list_tables :: "db \<Rightarrow> result \<times> db" where
  "list_tables s = (Tables (map fst (read_table_metadata s)), s)"

text \<open>\<open>max([row.get(ID_COLUMN, 0) for row in data], default=0) + 1\<close>.\<close>

definition new_id :: "row list \<Rightarrow> exn + pyval" where
  "new_id data =
     (case py_max_default0
             (map (\<lambda>r. case dict_get r ID_COLUMN of None \<Rightarrow> PInt 0 | Some v \<Rightarrow> v) data) of
        Inl e \<Rightarrow> Inl e
      | Inr m \<Rightarrow> py_add1 m)"

definition insert_row :: "(pyfloat \<Rightarrow> string) \<Rightarrow> db \<Rightarrow> string \<Rightarrow> pyval list \<Rightarrow> result \<times> db" where
  "insert_row frepr s table_name values =
     (if \<not> table_exists s table_name then (Text (Error Table_not_exists), s)
      else
        (case dict_get (read_table_metadata s) table_name of
           None \<Rightarrow> (Text (handle_db_errors (KeyError table_name)), s)
         | Some columns \<Rightarrow>
             let data = read_table_data s table_name in
             (case validate_row_data frepr columns values of
                Inl e \<Rightarrow> (Text (handle_db_errors e), s)
              | Inr validated_data \<Rightarrow>
                  (case new_id data of
                     Inl e \<Rightarrow> (Text (handle_db_errors e), s)
                   | Inr i \<Rightarrow>
                       (Text Row_inserted,
                        write_table_data s table_name
                          (data @ [dict_set validated_data ID_COLUMN i]))))))"

text \<open>A list comprehension with a condition that may raise: the first exception ends it.\<close>

fun keep_rows :: "(row \<Rightarrow> exn + bool) \<Rightarrow> row list \<Rightarrow> exn + row list" where
  "keep_rows p [] = Inr []"
| "keep_rows p (r # rs) =
     (case p r of
        Inl e \<Rightarrow> Inl e
      | Inr b \<Rightarrow>
          (case keep_rows p rs of
             Inl e \<Rightarrow> Inl e
           | Inr kept \<Rightarrow> Inr (if b then r # kept else kept)))"

definition project :: "string list \<Rightarrow> row \<Rightarrow> row" where
  "project columns r =
     foldl (\<lambda>result_row col.
              case dict_get r col of None \<Rightarrow> result_row | Some v \<Rightarrow> dict_set result_row col v)
           [] columns"

definition select_rows :: "db \<Rightarrow> string \<Rightarrow> string list \<Rightarrow> string option \<Rightarrow> result \<times> db" where
  "select_rows s table_name columns where_condition =
     (if \<not> table_exists s table_name
      then (Text (handle_db_errors (ValueError Table_not_exists)), s)
      else
        let data = read_table_data s table_name in
        (case (case truthy where_condition of
                 None \<Rightarrow> Inr data
               | Some c \<Rightarrow> keep_rows (\<lambda>r. evaluate_condition r c) data) of
           Inl e \<Rightarrow> (Text (handle_db_errors e), s)
         | Inr found \<Rightarrow>
             (Rows (if columns \<noteq> [''*''] then map (project columns) found else found), s)))"

text \<open>The first loop of \<open>update_rows\<close>: every SET value is checked and coerced, in the
  order of the dictionary, before any row is looked at. \<open>Inl\<close> is the reply of an early
  exit, by \<open>return\<close> or by an exception that reaches \<open>handle_db_errors\<close>.\<close>

fun coerce_updates ::
  "(pyfloat \<Rightarrow> string) \<Rightarrow> schema \<Rightarrow> (string \<times> pyval) list \<Rightarrow> row \<Rightarrow> reply + row" where
  "coerce_updates frepr columns [] updates = Inr updates"
| "coerce_updates frepr columns ((col_name, new_value) # rest) updates =
     (case dict_get columns col_name of
        None \<Rightarrow> Inl (Error (Column_not_found col_name))
      | Some expected_type \<Rightarrow>
          (case cast_value frepr new_value expected_type of
             Inl (ValueError m) \<Rightarrow> Inl (Error m)
           | Inl e \<Rightarrow> Inl (handle_db_errors e)
           | Inr v \<Rightarrow> coerce_updates frepr columns rest (dict_set updates col_name v)))"

text \<open>The second loop: the rows after the update and the number of rows it matched.\<close>

fun update_loop :: "string option \<Rightarrow> row \<Rightarrow> row list \<Rightarrow> exn + row list \<times> nat" where
  "update_loop where_condition updates [] = Inr ([], 0)"
| "update_loop where_condition updates (r # rest) =
     (case (case truthy where_condition of
              None \<Rightarrow> Inr True
            | Some c \<Rightarrow> evaluate_condition r c) of
        Inl e \<Rightarrow> Inl e
      | Inr hit \<Rightarrow>
          (case update_loop where_condition updates rest of
             Inl e \<Rightarrow> Inl e
           | Inr (rows, updated_count) \<Rightarrow>
               Inr ((if hit then dict_update r updates else r) # rows,
                    (if hit then Suc updated_count else updated_count))))"

definition update_rows ::
  "(pyfloat \<Rightarrow> string) \<Rightarrow> db \<Rightarrow> string \<Rightarrow> row \<Rightarrow> string option \<Rightarrow> result \<times> db" where
  "update_rows frepr s table_name updates where_condition =
     (if \<not> table_exists s table_name then (Text (Error Table_not_exists), s)
      else
        (case dict_get (read_table_metadata s) table_name of
           None \<Rightarrow> (Text (handle_db_errors (KeyError table_name)), s)
         | Some columns \<Rightarrow>
             let data = read_table_data s table_name in
             (case coerce_updates frepr columns updates updates of
                Inl early \<Rightarrow> (Text early, s)
              | Inr coerced \<Rightarrow>
                  (case update_loop where_condition coerced data of
                     Inl e \<Rightarrow> (Text (handle_db_errors e), s)
                   | Inr (rows, updated_count) \<Rightarrow>
                       (Text (Rows_updated updated_count),
                        write_table_data s table_name rows)))))"

definition delete_rows :: "string \<Rightarrow> db \<Rightarrow> string \<Rightarrow> string option \<Rightarrow> result \<times> db" where
  "delete_rows answer s table_name where_condition =
     (if \<not> confirmed answer then (Text Action_cancelled, s)
      else if \<not> table_exists s table_name then (Text (Error Table_not_exists), s)
      else
        let data = read_table_data s table_name in
        (case truthy where_condition of
           Some c \<Rightarrow>
             (case keep_rows (\<lambda>r. case evaluate_condition r c of
                                      Inl e \<Rightarrow> Inl e
                                    | Inr b \<Rightarrow> Inr (\<not> b)) data of
                Inl e \<Rightarrow> (Text (handle_db_errors e), s)
              | Inr new_data \<Rightarrow>
                  (Text (Rows_deleted (length data - length new_data)),
                   write_table_data s table_name new_data))
         | None \<Rightarrow> (Text (Rows_deleted (length data)), write_table_data s table_name [])))"

section \<open>engine.py: DatabaseSession\<close>

text \<open>\<open>except Exception as e: return f"Error: {str(e)}"\<close>.\<close>

fun caught :: "exn \<Rightarrow> reply" where
  "caught (ValueError m) = Error m"
| "caught e = Error Runtime_message"

definition execute_command ::
  "(pyfloat \<Rightarrow> string) \<Rightarrow> string \<Rightarrow> db \<Rightarrow> string \<Rightarrow> result \<times> db" where
  "execute_command frepr answer s text =
     (let command = upper (strip text) in
      if startswith command ''CREATE TABLE'' then
        (case parse_create_table command of
           Inl e \<Rightarrow> (Text (caught e), s)
         | Inr (table_name, columns) \<Rightarrow> create_table s table_name columns)
      else if startswith command ''DROP TABLE'' then
        (case parse_drop_table command of
           Inl e \<Rightarrow> (Text (caught e), s)
         | Inr table_name \<Rightarrow> drop_table answer s table_name)
      else if command = ''LIST TABLES'' then
        (case list_tables s of
           (Tables tables, s') \<Rightarrow> (if tables = [] then Text No_tables_exist else Tables tables, s')
         | other \<Rightarrow> other)
      else if startswith command ''INSERT INTO'' then
        (case parse_insert command of
           Inl e \<Rightarrow> (Text (caught e), s)
         | Inr (table_name, values) \<Rightarrow> insert_row frepr s table_name values)
      else if startswith command ''SELECT'' then
        (case parse_select command of
           Inl e \<Rightarrow> (Text (caught e), s)
         | Inr (table_name, columns, where_condition) \<Rightarrow>
             select_rows s table_name columns where_condition)
      else if startswith command ''UPDATE'' then
        (case parse_update command of
           Inl e \<Rightarrow> (Text (caught e), s)
         | Inr (table_name, updates, where_condition) \<Rightarrow>
             update_rows frepr s table_name updates where_condition)
      else if startswith command ''DELETE FROM'' then
        (case parse_delete command of
           Inl e \<Rightarrow> (Text (caught e), s)
         | Inr (table_name, where_condition) \<Rightarrow> delete_rows answer s table_name where_condition)
      else (Text Unknown_command, s))"

section \<open>Notions used to state the properties\<close>

text \<open>The three families of values that Python orders only within themselves.\<close>

datatype kind = Numeric | Textual | Absent

fun kind_of :: "pyval \<Rightarrow> kind" where
  "kind_of (PBool b) = Numeric"
| "kind_of (PInt i) = Numeric"
| "kind_of (PFloat f) = Numeric"
| "kind_of (PStr s) = Textual"
| "kind_of PNone = Absent"

text \<open>The operator \<open>evaluate_condition\<close> settles on, with the text on its two sides: the
  first of the list that occurs in the condition, split at its first occurrence.\<close>

fun matched_operator :: "string list \<Rightarrow> string \<Rightarrow> (string \<times> string \<times> string) option" where
  "matched_operator [] condition = None"
| "matched_operator (op # ops) condition =
     (case find_sub op condition of
        None \<Rightarrow> matched_operator ops condition
      | Some (left, right) \<Rightarrow> Some (op, left, right))"

fun is_error :: "reply \<Rightarrow> bool" where
  "is_error (Error m) = True"
| "is_error (Unexpected e) = True"
| "is_error r = False"

definition empty_db :: db where
  "empty_db = \<lparr>metadata = [], files = (\<lambda>table_name. None)\<rparr>"



definition ids_of :: "row list \<Rightarrow> pyval option list" where
  "ids_of data = map (\<lambda>r. dict_get r ''id'') data"


text \<open>A table reached through the engine alone: created, then two rows inserted.\<close>

definition two_rows_db :: db where
  "two_rows_db =
     snd (insert_row (\<lambda>f. [])
            (snd (insert_row (\<lambda>f. [])
                    (snd (create_table empty_db ''t'' [(''n'', ''int'')])) ''t'' [PInt 10]))
            ''t'' [PInt 20])"


text \<open>The characters of a decimal integer as \<open>str\<close> prints it.\<close>

definition plain :: "char \<Rightarrow> bool" where
  "plain c = (c \<in> set (''-'' @ digits))"

section \<open>Coercion\<close>

text \<open>
  C3. Coercion to a bool column should accept \<open>"t"\<close> and \<open>"f"\<close> in any case and an integer
  by its being non-zero. The validator of \<open>utils.py\<close>, the one the engine imports for
  INSERT and UPDATE, rejects all of them; the copy in \<open>parser.py\<close> accepts them.
\<close>

theorem cast_value_bool_rejects_t_and_int:
  "cast_value frepr (PStr ''t'') ''bool'' = Inl (ValueError (Cannot_cast (PStr ''t'') ''bool''))
   \<and> cast_value frepr (PStr ''F'') ''bool'' = Inl (ValueError (Cannot_cast (PStr ''F'') ''bool''))
   \<and> cast_value frepr (PInt 1) ''bool'' = Inl (ValueError (Cannot_cast (PInt 1) ''bool''))
   \<and> parser_cast_value frepr (PStr ''t'') ''bool'' = Inr (PBool True)
   \<and> parser_cast_value frepr (PStr ''F'') ''bool'' = Inr (PBool False)
   \<and> parser_cast_value frepr (PInt 1) ''bool'' = Inr (PBool True)"
  by (simp add: cast_value_def parser_cast_value_def lower_def lower_char_def uppers_def
      lowers_def)

lemma int_of_str_3_9: "int_of_str ''3.9'' = None"
  by code_simp

lemma parse_value_3_9: "parse_value ''3.9'' = PFloat (Fin (39 / 10))"
  by code_simp

lemma trunc_3_9: "trunc (39 / 10) = 3"
  by (simp add: trunc_def floor_eq_iff)

text \<open>
  C4, as the code has it. Coercion to an int column is strict on strings: a string that
  is not an integer literal, \<open>"3.9"\<close> among them, fails with the cast error, and so do
  \<open>None\<close> and NaN. A finite float is accepted and truncated toward zero, and a boolean
  is stored as 0 or 1.
\<close>

theorem cast_int_strict_on_strings_only:
  "(int_of_str t = None \<longrightarrow>
      cast_value frepr (PStr t) ''int'' = Inl (ValueError (Cannot_cast (PStr t) ''int'')))
   \<and> cast_value frepr PNone ''int'' = Inl (ValueError (Cannot_cast PNone ''int''))
   \<and> cast_value frepr (PFloat NaN) ''int'' = Inl (ValueError (Cannot_cast (PFloat NaN) ''int''))
   \<and> cast_value frepr (PFloat (Fin q)) ''int'' = Inr (PInt (trunc q))
   \<and> cast_value frepr (PBool b) ''int'' = Inr (PInt (if b then 1 else 0))"
  by (simp add: cast_value_def recast_def)

theorem cast_int_strict_on_strings_only_witness:
  "cast_value (\<lambda>f. []) (PStr ''3.9'') ''int'' = Inl (ValueError (Cannot_cast (PStr ''3.9'') ''int''))
   \<and> cast_value (\<lambda>f. []) (PFloat (Fin (39 / 10))) ''int'' = Inr (PInt 3)"
  using cast_int_strict_on_strings_only [of "''3.9''" "\<lambda>f. []" "39 / 10"]
    int_of_str_3_9 trunc_3_9
  by simp

text \<open>
  C4, as the claim has it, fails: the unquoted literal \<open>3.9\<close> is guessed as a float, and
  inserting that float into an int column stores 3.
\<close>

theorem insert_float_into_int_column_truncates:
  "(let s = \<lparr>metadata = [(''t'', [(''id'', ''int''), (''n'', ''int'')])],
             files = (\<lambda>table_name. None)\<rparr>;
        (res, s') = insert_row (\<lambda>f. []) s ''t'' [parse_value ''3.9'']
    in res = Text Row_inserted
       \<and> read_table_data s' ''t'' = [[(''n'', PInt 3), (''id'', PInt 1)]])"
  by (simp add: parse_value_3_9 insert_row_def table_exists_def read_table_metadata_def
      dict_has_def dict_get_def validate_row_data_def cast_value_def trunc_3_9 new_id_def
      read_table_data_def write_table_data_def py_max_default0_def ID_COLUMN_def)

section \<open>Conditions\<close>

lemma py_eq_mismatch: "kind_of a \<noteq> kind_of b \<Longrightarrow> \<not> py_eq a b"
  by (cases a; cases b) simp_all

lemma py_lt_mismatch: "kind_of a \<noteq> kind_of b \<Longrightarrow> py_lt a b = Inl TypeError"
  by (cases a; cases b) simp_all

lemma py_le_mismatch: "kind_of a \<noteq> kind_of b \<Longrightarrow> py_le a b = Inl TypeError"
  by (cases a; cases b) simp_all

lemma compare_mismatch:
  assumes "kind_of a \<noteq> kind_of b" and "op \<in> set operators"
  shows "compare op a b =
           Some (if op = ''='' then Inr False else if op = ''!='' then Inr True
                 else Inl TypeError)"
proof -
  have ba: "kind_of b \<noteq> kind_of a" using assms(1) by simp
  show ?thesis
    using assms(2) py_eq_mismatch[OF assms(1)] py_lt_mismatch[OF assms(1)]
      py_le_mismatch[OF assms(1)] py_lt_mismatch[OF ba] py_le_mismatch[OF ba]
    by (auto simp: operators_def compare_def py_gt_def py_ge_def)
qed

lemma matched_operator_mem:
  "matched_operator ops c = Some (op, l, r) \<Longrightarrow> op \<in> set ops"
  by (induction ops) (auto split: option.splits)

lemma evaluate_ops_matched:
  assumes "matched_operator ops c = Some (op, l, r)"
    and "\<And>p. p \<in> set ops \<Longrightarrow>
           compare p (row_get rw (strip l)) (parse_value (strip r)) \<noteq> None"
  shows "Some (evaluate_ops ops rw c)
         = compare op (row_get rw (strip l)) (parse_value (strip r))"
  using assms
proof (induction ops)
  case Nil
  then show ?case by simp
next
  case (Cons o1 ops)
  show ?case
  proof (cases "find_sub o1 c")
    case None
    with Cons show ?thesis by simp
  next
    case (Some lr)
    with Cons.prems(1) have eq: "o1 = op" "lr = (l, r)" by (auto split: prod.splits)
    from Cons.prems(2)[of o1] obtain res where
      "compare o1 (row_get rw (strip l)) (parse_value (strip r)) = Some res" by auto
    with Some eq show ?thesis by simp
  qed
qed

text \<open>
  C7, as the code has it. When the two operands of the matched operator are of different
  kinds (a string against a number, or \<open>None\<close> against either), the four ordering
  operators raise \<open>TypeError\<close>; \<open>=\<close> answers false and \<open>!=\<close> answers true, without
  any failure.
\<close>

theorem evaluate_condition_type_mismatch:
  assumes "matched_operator operators condition = Some (op, left, right)"
    and "kind_of (row_get r (strip left)) \<noteq> kind_of (parse_value (strip right))"
  shows "evaluate_condition r condition =
           (if op = ''='' then Inr False else if op = ''!='' then Inr True else Inl TypeError)"
proof -
  have mem: "op \<in> set operators" using assms(1) by (rule matched_operator_mem)
  have "\<And>p. p \<in> set operators \<Longrightarrow>
          compare p (row_get r (strip left)) (parse_value (strip right)) \<noteq> None"
    by (simp add: compare_mismatch[OF assms(2)])
  from evaluate_ops_matched[OF assms(1) this]
  show ?thesis by (simp add: evaluate_condition_def compare_mismatch[OF assms(2) mem])
qed

theorem evaluate_condition_type_mismatch_witness:
  "evaluate_condition [(''name'', PStr ''a'')] ''name > 1'' = Inl TypeError"
proof -
  have m: "matched_operator operators ''name > 1'' = Some (''>'', ''name '', '' 1'')"
    by code_simp
  have k: "kind_of (row_get [(''name'', PStr ''a'')] (strip ''name ''))
           \<noteq> kind_of (parse_value (strip '' 1''))"
    by code_simp
  show ?thesis using evaluate_condition_type_mismatch[OF m k] by simp
qed

text \<open>
  C7, as the claim has it, fails: a string column compared with a number by \<open>=\<close> or
  \<open>!=\<close> is answered, false and true, and nothing is raised.
\<close>

theorem evaluate_condition_equality_no_failure:
  "evaluate_condition [(''name'', PStr ''a'')] ''name = 1'' = Inr False
   \<and> evaluate_condition [(''name'', PStr ''a'')] ''name != 1'' = Inr True
   \<and> kind_of (PStr ''a'') \<noteq> kind_of (PInt 1)"
  by code_simp

section \<open>UPDATE\<close>

lemma handle_db_errors_is_error: "is_error (handle_db_errors e)"
  by (cases e) simp_all

lemma coerce_updates_failure:
  assumes "(c, v) \<in> set items"
    and "case dict_get columns c of None \<Rightarrow> True | Some ty \<Rightarrow> isl (cast_value frepr v ty)"
  shows "\<exists>r. coerce_updates frepr columns items acc = Inl r \<and> is_error r"
  using assms(1)
proof (induction items arbitrary: acc)
  case Nil
  then show ?case by simp
next
  case (Cons item items)
  obtain c1 v1 where item: "item = (c1, v1)" by (cases item)
  show ?case
  proof (cases "dict_get columns c1")
    case None
    then show ?thesis by (simp add: item)
  next
    case (Some ty)
    show ?thesis
    proof (cases "cast_value frepr v1 ty")
      case (Inl e)
      then show ?thesis using Some
        by (cases e) (simp_all add: item)
    next
      case (Inr w)
      with Some assms(2) Cons.prems item have "(c, v) \<in> set items"
        by (auto split: option.splits)
      from Cons.IH[OF this] Some Inr show ?thesis by (simp add: item)
    qed
  qed
qed

text \<open>
  C2. When a SET column is absent from the schema or its value cannot be coerced to the
  declared type, \<open>update_rows\<close> answers with an error and leaves the storage as it was:
  every SET value is coerced before the first row is touched, so no column is applied to
  any row and there is no mutation to roll back.
\<close>

theorem update_rows_coercion_failure_aborts:
  assumes "dict_get (metadata s) table_name = Some columns"
    and "(col_name, new_value) \<in> set updates"
    and "case dict_get columns col_name of
           None \<Rightarrow> True
         | Some expected_type \<Rightarrow> isl (cast_value frepr new_value expected_type)"
  shows "\<exists>r. update_rows frepr s table_name updates where_condition = (Text r, s)
             \<and> is_error r"
proof -
  from coerce_updates_failure[OF assms(2) assms(3)]
  obtain r where "coerce_updates frepr columns updates updates = Inl r" "is_error r" by blast
  then show ?thesis using assms(1)
    by (simp add: update_rows_def table_exists_def read_table_metadata_def dict_has_def
        dict_get_def)
qed

theorem update_rows_coercion_failure_aborts_witness:
  "\<exists>r. update_rows (\<lambda>f. []) two_rows_db ''t'' [(''n'', PStr ''x'')] None = (Text r, two_rows_db)
       \<and> is_error r"
proof -
  have a: "dict_get (metadata two_rows_db) ''t'' = Some [(''id'', ''int''), (''n'', ''int'')]"
    by code_simp
  have b: "(''n'', PStr ''x'') \<in> set [(''n'', PStr ''x'')]" by simp
  have c: "case dict_get [(''id'', ''int''), (''n'', ''int'')] ''n'' of
             None \<Rightarrow> True
           | Some expected_type \<Rightarrow> isl (cast_value (\<lambda>f. []) (PStr ''x'') expected_type)"
    by code_simp
  from update_rows_coercion_failure_aborts[OF a b c] show ?thesis .
qed

section \<open>SELECT\<close>

text \<open>
  C10. \<open>select_rows\<close> writes nothing: the metadata and every data file are after the call
  what they were before it, whether it returns rows or an error.
\<close>

theorem select_rows_no_write: "snd (select_rows s table_name columns where_condition) = s"
  by (simp add: select_rows_def Let_def split: sum.splits option.splits)

section \<open>Dictionaries\<close>



section \<open>CREATE TABLE\<close>



section \<open>INSERT\<close>












section \<open>The identity column under UPDATE\<close>

text \<open>
  C9. \<open>update_rows\<close> does not protect \<open>id\<close>. In a table reached by creating it and
  inserting two rows, the ids are 1 and 2; the statement \<open>UPDATE t SET id = 7\<close>, parsed
  and handed to \<open>update_rows\<close>, matches both rows and leaves both with the id 7.
\<close>

theorem update_rows_breaks_id_uniqueness:
  "ids_of (read_table_data two_rows_db ''t'') = [Some (PInt 1), Some (PInt 2)]
   \<and> parse_update ''UPDATE t SET id = 7'' = Inr (''t'', [(''id'', PInt 7)], None)
   \<and> (let (res, s') = update_rows (\<lambda>f. []) two_rows_db ''t'' [(''id'', PInt 7)] None
       in res = Text (Rows_updated 2)
          \<and> ids_of (read_table_data s' ''t'') = [Some (PInt 7), Some (PInt 7)])"
  by code_simp

section \<open>DELETE by id on the engine\<close>

text \<open>
  Printing an integer and reading it back, then the condition \<open>id = k\<close> as
  \<open>delete_rows\<close> itself evaluates it: called with that condition on a table whose ids
  are distinct integers, it removes the row with id \<open>k\<close> and reports 1 if there was one,
  0 otherwise.
\<close>

lemma digit_nth: "(m::nat) < 10 \<Longrightarrow> is_digit (digits ! m) \<and> digit_val (digits ! m) = m"
proof -
  assume "m < 10"
  then have "m = 0 \<or> m = 1 \<or> m = 2 \<or> m = 3 \<or> m = 4 \<or> m = 5 \<or> m = 6 \<or> m = 7
             \<or> m = 8 \<or> m = 9" by presburger
  then show ?thesis
    by (elim disjE) (simp_all add: is_digit_def digit_val_def digits_def)
qed

lemma str_of_nat_small: "n < 10 \<Longrightarrow> str_of_nat n = [digits ! n]"
  by (subst str_of_nat.simps) simp

lemma str_of_nat_large:
  "\<not> n < 10 \<Longrightarrow> str_of_nat n = str_of_nat (n div 10) @ [digits ! (n mod 10)]"
  by (subst str_of_nat.simps) simp

lemma str_of_nat_digits: "str_of_nat n \<noteq> [] \<and> (\<forall>c \<in> set (str_of_nat n). is_digit c)"
proof (induction n rule: str_of_nat.induct)
  case (1 n)
  show ?case
  proof (cases "n < 10")
    case True
    then show ?thesis using digit_nth[of n] by (simp add: str_of_nat_small)
  next
    case False
    then show ?thesis using 1 digit_nth[of "n mod 10"] by (simp add: str_of_nat_large)
  qed
qed

lemma digits_val_snoc:
  "is_digit c \<Longrightarrow> digits_val (s @ [c]) = 10 * digits_val s + digit_val c"
  by (simp add: digits_val_def)

lemma digits_val_str_of_nat: "digits_val (str_of_nat n) = n"
proof (induction n rule: str_of_nat.induct)
  case (1 n)
  show ?case
  proof (cases "n < 10")
    case True
    then show ?thesis using digit_nth[of n]
      by (simp add: str_of_nat_small digits_val_def)
  next
    case False
    then show ?thesis using 1 digit_nth[of "n mod 10"]
      by (simp add: str_of_nat_large digits_val_snoc)
  qed
qed

lemma digitpart_digits: "s \<noteq> [] \<Longrightarrow> \<forall>c \<in> set s. is_digit c \<Longrightarrow> digitpart s"
proof (induction s rule: digitpart.induct)
  case 1
  then show ?case by simp
next
  case (2 c)
  then show ?case by simp
next
  case (3 c d cs)
  have "\<not> is_digit CHR ''_''" by (simp add: is_digit_def digits_def)
  with 3 show ?case by auto
qed

lemma unsigned_int_of_str_str_of_nat: "unsigned_int_of_str (str_of_nat n) = Some (int n)"
  using str_of_nat_digits[of n]
  by (simp add: unsigned_int_of_str_def digitpart_digits digits_val_str_of_nat)


lemma plain_facts:
  "plain c \<Longrightarrow> \<not> is_space c \<and> lower_char c = c \<and> c \<noteq> CHR 0x22 \<and> c \<noteq> CHR 0x27
     \<and> c \<noteq> CHR ''t'' \<and> c \<noteq> CHR ''f'' \<and> c \<noteq> CHR ''n''
     \<and> c \<noteq> CHR ''>'' \<and> c \<noteq> CHR ''<'' \<and> c \<noteq> CHR ''!'' \<and> c \<noteq> CHR ''='' \<and> c \<noteq> CHR ''+''"
  unfolding plain_def digits_def is_space_def lower_char_def uppers_def lowers_def
  by (elim disjE rev_mp) auto

lemma str_of_int_plain: "str_of_int k \<noteq> [] \<and> (\<forall>c \<in> set (str_of_int k). plain c)"
  using str_of_nat_digits
  by (auto simp: str_of_int_def plain_def is_digit_def)

lemma strip_no_space: "\<forall>c \<in> set s. \<not> is_space c \<Longrightarrow> strip s = s"
proof -
  assume a: "\<forall>c \<in> set s. \<not> is_space c"
  have d: "\<forall>c \<in> set t. \<not> is_space c \<Longrightarrow> dropWhile is_space t = t" for t
    by (cases t) auto
  show ?thesis using a by (simp add: strip_def d)
qed

lemma int_of_str_str_of_int: "int_of_str (str_of_int k) = Some k"
proof -
  have s: "strip (str_of_int k) = str_of_int k"
    using str_of_int_plain[of k] plain_facts by (intro strip_no_space) blast
  have i: "int_of_str (str_of_int k) = signed unsigned_int_of_str uminus (str_of_int k)"
    by (simp only: int_of_str_def s)
  show ?thesis
  proof (cases "k < 0")
    case True
    then show ?thesis unfolding i
      by (simp add: str_of_int_def signed_def unsigned_int_of_str_str_of_nat)
  next
    case False
    obtain c cs where cs: "str_of_nat (nat k) = c # cs"
      using str_of_nat_digits[of "nat k"] by (cases "str_of_nat (nat k)") auto
    have "is_digit c" using str_of_nat_digits[of "nat k"] cs by simp
    then have "c \<noteq> CHR ''-''" "c \<noteq> CHR ''+''" by (auto simp: is_digit_def digits_def)
    with False cs unsigned_int_of_str_str_of_nat[of "nat k"] show ?thesis unfolding i
      by (simp add: str_of_int_def signed_def)
  qed
qed

lemma parse_value_str_of_int: "parse_value (str_of_int k) = PInt k"
proof -
  obtain c cs where cs: "str_of_int k = c # cs"
    using str_of_int_plain[of k] by (cases "str_of_int k") auto
  have "plain c" using str_of_int_plain[of k] cs by simp
  from plain_facts[OF this] show ?thesis
    by (simp add: parse_value_def int_of_str_str_of_int startswith_def cs[symmetric])
       (simp add: cs lower_def)
qed


lemma find_sub_absent: "c \<notin> set s \<Longrightarrow> find_sub (c # p) s = None"
  by (induction s) (auto simp: startswith_def)

lemma evaluate_condition_id_eq:
  "evaluate_condition r (''id = '' @ str_of_int k) = Inr (py_eq (row_get r ''id'') (PInt k))"
proof -
  define c where "c = ''id = '' @ str_of_int k"
  have p: "\<forall>x \<in> set (str_of_int k). plain x" using str_of_int_plain[of k] by simp
  have n1: "CHR ''>'' \<notin> set c" and n2: "CHR ''<'' \<notin> set c" and n3: "CHR ''!'' \<notin> set c"
    using p plain_facts by (auto simp: c_def)
  have ge: "find_sub ''>='' c = None" using n1 by (rule find_sub_absent)
  have le: "find_sub ''<='' c = None" using n2 by (rule find_sub_absent)
  have ne: "find_sub ''!='' c = None" using n3 by (rule find_sub_absent)
  have eq: "find_sub ''='' c = Some (''id '', CHR '' '' # str_of_int k)"
    by (simp add: c_def startswith_def)
  have l: "strip ''id '' = ''id''" by code_simp
  have "strip (CHR '' '' # str_of_int k) = strip (str_of_int k)"
    by (simp add: strip_def is_space_def)
  also have "\<dots> = str_of_int k" using p plain_facts by (intro strip_no_space) blast
  finally have r: "strip (CHR '' '' # str_of_int k) = str_of_int k" .
  have "evaluate_ops operators r c = Inr (py_eq (row_get r ''id'') (PInt k))"
    by (simp add: operators_def ge le ne eq l r parse_value_str_of_int compare_def)
  then show ?thesis by (simp only: evaluate_condition_def c_def)
qed

lemma keep_rows_total: "(\<And>r. p r = Inr (q r)) \<Longrightarrow> keep_rows p rows = Inr (filter q rows)"
  by (induction rows) simp_all

lemma py_eq_ints: "py_eq (PInt i) (PInt k) = (i = k)"
  by simp

lemma count_removed:
  fixes ids :: "int list"
  assumes "distinct ids"
  shows "length ids - length (filter (\<lambda>i. i \<noteq> k) ids) = (if k \<in> set ids then 1 else 0)"
  using assms
proof (induction ids)
  case Nil
  then show ?case by simp
next
  case (Cons i ids)
  have le: "length (filter (\<lambda>i. i \<noteq> k) ids) \<le> length ids" by simp
  show ?case
  proof (cases "i = k")
    case True
    with Cons.prems have "k \<notin> set ids" by simp
    then have "filter (\<lambda>i. i \<noteq> k) ids = ids" by (induction ids) auto
    with True show ?thesis by simp
  next
    case False
    with Cons le show ?thesis by (auto simp: Suc_diff_le)
  qed
qed


lemma filter_by_id:
  assumes "ids_of data = map (\<lambda>i. Some (PInt i)) ids"
  shows "length data = length ids
         \<and> length (filter (\<lambda>r. \<not> py_eq (row_get r ''id'') (PInt k)) data)
             = length (filter (\<lambda>i. i \<noteq> k) ids)
         \<and> Some (PInt k) \<notin> set (ids_of (filter (\<lambda>r. \<not> py_eq (row_get r ''id'') (PInt k)) data))"
  using assms
proof (induction data arbitrary: ids)
  case Nil
  then show ?case by (simp add: ids_of_def)
next
  case (Cons r data)
  from Cons.prems obtain i rest where ids: "ids = i # rest"
    and r: "dict_get r ''id'' = Some (PInt i)"
    and rest: "ids_of data = map (\<lambda>i. Some (PInt i)) rest"
    by (cases ids) (auto simp: ids_of_def)
  from Cons.IH[OF rest] r show ?case
    by (auto simp: ids ids_of_def row_get_def)
qed

lemma delete_rows_by_id:
  assumes ex: "table_exists s table_name" and yes: "confirmed answer"
    and ids: "ids_of (read_table_data s table_name) = map (\<lambda>i. Some (PInt i)) ids"
    and dist: "distinct ids"
  shows "\<exists>s1 rows.
           delete_rows answer s table_name (Some (''id = '' @ str_of_int k))
             = (Text (Rows_deleted (if k \<in> set ids then 1 else 0)), s1)
           \<and> select_rows s1 table_name [''*''] None = (Rows rows, s1)
           \<and> Some (PInt k) \<notin> set (ids_of rows)"
proof -
  define c where "c = ''id = '' @ str_of_int k"
  define data where "data = read_table_data s table_name"
  define kept where "kept = filter (\<lambda>r. \<not> py_eq (row_get r ''id'') (PInt k)) data"
  define s1 where "s1 = write_table_data s table_name kept"
  have t: "truthy (Some c) = Some c" by (simp add: truthy_def c_def)
  have k: "keep_rows (\<lambda>r. case evaluate_condition r c of Inl e \<Rightarrow> Inl e | Inr b \<Rightarrow> Inr (\<not> b)) data
           = Inr kept"
    unfolding kept_def
    by (rule keep_rows_total) (simp only: c_def evaluate_condition_id_eq sum.case)
  from filter_by_id[OF ids, of k] have f: "length data = length ids"
    "length kept = length (filter (\<lambda>i. i \<noteq> k) ids)"
    "Some (PInt k) \<notin> set (ids_of kept)"
    by (simp_all add: data_def kept_def)
  have n: "length data - length kept = (if k \<in> set ids then 1 else 0)"
    using count_removed[OF dist, of k] f by simp
  have d: "delete_rows answer s table_name (Some c) = (Text (Rows_deleted (if k \<in> set ids then 1 else 0)), s1)"
    using ex yes n by (simp add: delete_rows_def t k data_def[symmetric] s1_def)
  have ex1: "table_exists s1 table_name"
    using ex by (simp add: s1_def table_exists_def read_table_metadata_def write_table_data_def)
  have rd: "read_table_data s1 table_name = kept"
    by (simp add: s1_def read_table_data_def write_table_data_def)
  have sel: "select_rows s1 table_name [''*''] None = (Rows kept, s1)"
    using ex1 by (simp add: select_rows_def rd truthy_def)
  from d sel f(3) show ?thesis unfolding c_def by blast
qed

section \<open>The command path\<close>

text \<open>
  C1. The parsers keep the case of identifiers and literals, but \<open>execute_command\<close>
  upper-cases the whole command before it parses it: after
  \<open>CREATE TABLE users (name str)\<close> and \<open>INSERT INTO users VALUES ("John")\<close> the table is
  \<open>USERS\<close>, its column \<open>NAME\<close> and the stored literal \<open>JOHN\<close>, while \<open>parse_insert\<close> on
  the same text returns \<open>users\<close> and \<open>John\<close>.
\<close>

theorem execute_command_upper_cases_names_and_literals:
  "(let (r1, s1) = execute_command (\<lambda>f. []) ''y'' empty_db ''CREATE TABLE users (name str)'';
        (r2, s2) = execute_command (\<lambda>f. []) ''y'' s1 ''INSERT INTO users VALUES (\"John\")''
    in r1 = Text Table_created \<and> r2 = Text Row_inserted
       \<and> map fst (metadata s2) = [''USERS'']
       \<and> files s2 ''users'' = None
       \<and> files s2 ''USERS'' = Some [[(''NAME'', PStr ''JOHN''), (''id'', PInt 1)]])
   \<and> parse_insert ''INSERT INTO users VALUES (\"John\")'' = Inr (''users'', [PStr ''John''])"
  by code_simp

text \<open>
  C5. Through \<open>execute_command\<close> the condition \<open>id = 1\<close> reaches the evaluator as
  \<open>ID = 1\<close>; no row has a column \<open>ID\<close>, so the row with id 1 is not deleted, the count
  reported is 0 and the following \<open>SELECT *\<close> still returns the row. On the engine,
  which receives the condition as written, \<open>delete_rows_by_id\<close> above holds.
\<close>

theorem execute_command_delete_by_id_deletes_nothing:
  "(let (r1, s1) = execute_command (\<lambda>f. []) ''y'' empty_db ''CREATE TABLE t (name str)'';
        (r2, s2) = execute_command (\<lambda>f. []) ''y'' s1 ''INSERT INTO t VALUES (\"a\")'';
        (r3, s3) = execute_command (\<lambda>f. []) ''y'' s2 ''DELETE FROM t WHERE id = 1'';
        (r4, s4) = execute_command (\<lambda>f. []) ''y'' s3 ''SELECT * FROM t''
    in r1 = Text Table_created \<and> r2 = Text Row_inserted
       \<and> r3 = Text (Rows_deleted 0)
       \<and> r4 = Rows [[(''NAME'', PStr ''A''), (''id'', PInt 1)]])"
  by code_simp

end
